theory Spec2Isabelle
  imports Main
begin

section \<open>The chat hook of \<^verbatim>\<open>src/hooks/useChat.tsx\<close>\<close>

text \<open>
  The hook owns four pieces of React state (the transcript \<open>messages\<close>, the flag
  \<open>isLoading\<close>, the \<open>systemPrompt\<close> and the responder \<open>apiFunction\<close>) and returns the
  callbacks \<open>sendMessage\<close>, \<open>clearMessages\<close>, \<open>updateApiFunction\<close> and \<open>setSystemPrompt\<close>.
  The embedding passes that state explicitly, together with what the callbacks read from
  or do to the world outside the hook: the millisecond clock behind \<open>Date.now()\<close> and
  \<open>new Date()\<close>, the hidden state of the responder, and a log of the responder calls and
  timers the hook has started. Strings are \<open>string\<close>; a character is one code unit below
  256. Diagnostic output (\<open>console.error\<close>, \<open>console.log\<close>) is left out.
\<close>

subsection \<open>Data\<close>

text \<open>Whatever a responder throws or rejects with; the hook never inspects it.\<close>

datatype error = Error string

text \<open>
  \<open>interface Message\<close>. The fields \<open>id\<close> and \<open>text\<close> carry a suffix since both names are
  taken in Isabelle. The timestamp is kept as the clock reading that \<open>toISOString\<close> renders.
\<close>

record message =
  id_of :: string
  text_of :: string
  isUser :: bool
  timestamp :: nat

text \<open>
  A responder \<open>(message, systemPrompt) => Promise<string>\<close>: called on the hidden state of
  the outside world, it settles with a rejection (\<open>Inl\<close>, which also stands for a
  synchronous throw: both reach the same \<open>catch\<close>) or a reply (\<open>Inr\<close>), after some
  milliseconds, and leaves a new hidden state. The hidden state stands for all that the
  outcome depends on besides the two arguments, and only a call changes it. Every call
  settles: a promise that stays pending for ever, on which \<open>sendMessage\<close> would never
  return, is outside the model.
\<close>

type_synonym 'e responder = "string \<Rightarrow> string \<Rightarrow> 'e \<Rightarrow> (error + string) \<times> nat \<times> 'e"

text \<open>
  The value held in the \<open>apiFunction\<close> state. The type annotation promises a function, but
  the hook tests \<open>typeof apiFunction !== 'function'\<close> at run time, so a value that is not
  a function is modelled too.
\<close>

datatype 'e api_value = Fn "'e responder" | NotFn

text \<open>What the hook has asked of the outside world, in order.\<close>

datatype effect = Invoke string string | Timeout nat

record 'e chat =
  messages :: "message list"
  isLoading :: bool
  systemPrompt :: string
  apiFunction :: "'e api_value"
  clock :: nat
  env :: 'e
  trace :: "effect list"

text \<open>\<open>interface ChatOptions\<close>: every field is optional. \<open>None\<close> is an absent or falsy value.\<close>

record 'e ChatOptions =
  optInitialMessages :: "message list option"
  optSystemPrompt :: "string option"
  optApiFunction :: "'e api_value option"

subsection \<open>Asynchronous code as state passing with errors as values\<close>

text \<open>
  A piece of the hook's code takes the state and returns the new state with either the
  value it produced (\<open>Inr\<close>) or the error it threw or rejected with (\<open>Inl\<close>).
\<close>

type_synonym ('a, 'e) prog = "'e chat \<Rightarrow> (error + 'a) \<times> 'e chat"

definition resolve :: "'a \<Rightarrow> ('a, 'e) prog" where
  "resolve x s = (Inr x, s)"

definition reject :: "error \<Rightarrow> ('a, 'e) prog" where
  "reject err s = (Inl err, s)"

text \<open>Sequencing: an error of the first part skips the rest.\<close>

definition andThen :: "('a, 'e) prog \<Rightarrow> ('a \<Rightarrow> ('b, 'e) prog) \<Rightarrow> ('b, 'e) prog" where
  "andThen m k s = (case m s of (Inl err, s1) \<Rightarrow> (Inl err, s1) | (Inr x, s1) \<Rightarrow> k x s1)"

text \<open>\<open>try { body } catch (error) { handler }\<close>\<close>

definition tryCatch :: "('a, 'e) prog \<Rightarrow> (error \<Rightarrow> ('a, 'e) prog) \<Rightarrow> ('a, 'e) prog" where
  "tryCatch body handler s =
     (case body s of (Inl err, s1) \<Rightarrow> handler err s1 | (Inr x, s1) \<Rightarrow> (Inr x, s1))"

text \<open>
  \<open>try { body } finally { finalizer }\<close>: the finalizer runs on every path; the outcome is
  the body's unless the finalizer itself throws.
\<close>

definition tryFinally :: "('a, 'e) prog \<Rightarrow> (unit, 'e) prog \<Rightarrow> ('a, 'e) prog" where
  "tryFinally body finalizer s =
     (case body s of (r, s1) \<Rightarrow>
        (case finalizer s1 of (Inl err, s2) \<Rightarrow> (Inl err, s2) | (Inr u, s2) \<Rightarrow> (r, s2)))"

subsection \<open>Primitives\<close>

text \<open>\<open>Date.now()\<close> and \<open>new Date()\<close> read the clock.\<close>

definition dateNow :: "(nat, 'e) prog" where
  "dateNow s = (Inr (clock s), s)"

text \<open>The state setters of \<open>useState\<close>.\<close>

definition setMessages :: "(message list \<Rightarrow> message list) \<Rightarrow> (unit, 'e) prog" where
  "setMessages f s = (Inr (), s\<lparr>messages := f (messages s)\<rparr>)"

definition setIsLoading :: "bool \<Rightarrow> (unit, 'e) prog" where
  "setIsLoading b s = (Inr (), s\<lparr>isLoading := b\<rparr>)"

definition setSystemPrompt :: "string \<Rightarrow> (unit, 'e) prog" where
  "setSystemPrompt p s = (Inr (), s\<lparr>systemPrompt := p\<rparr>)"

definition setApiFunction :: "'e api_value \<Rightarrow> (unit, 'e) prog" where
  "setApiFunction v s = (Inr (), s\<lparr>apiFunction := v\<rparr>)"

text \<open>
  \<open>await new Promise(resolve => setTimeout(resolve, ms))\<close>: the timer is logged and the
  clock moves on by the delay (a timer fires no earlier than its delay; the model lets it
  fire on time). The delays of the hook are \<open>1000 * Math.pow(2, retryCount)\<close> with
  \<open>retryCount\<close> at most 3, which is exact in floating point.
\<close>

definition setTimeout :: "nat \<Rightarrow> (unit, 'e) prog" where
  "setTimeout ms s = (Inr (), s\<lparr>clock := clock s + ms, trace := trace s @ [Timeout ms]\<rparr>)"

text \<open>
  \<open>await f(userMessage, systemPrompt)\<close>: the call is logged, the responder settles on the
  hidden state, and the clock moves on by the time it took.
\<close>

definition invoke :: "'e responder \<Rightarrow> string \<Rightarrow> string \<Rightarrow> (string, 'e) prog" where
  "invoke f userMessage prompt s =
     (case f userMessage prompt (env s) of
        (r, ms, e) \<Rightarrow>
          (r, s\<lparr>clock := clock s + ms, env := e,
                 trace := trace s @ [Invoke userMessage prompt]\<rparr>))"

text \<open>\<open>Number.prototype.toString\<close> on a clock reading: its decimal digits.\<close>

definition digit :: "nat \<Rightarrow> char" where
  "digit d = ''0123456789'' ! d"

fun toString :: "nat \<Rightarrow> string" where
  "toString n = (if n < 10 then [digit n] else toString (n div 10) @ [digit (n mod 10)])"

declare toString.simps [simp del]

text \<open>
  \<open>String.prototype.trim\<close>: white space and line terminators are removed from both ends.
  Below 256 these are the code units 9 to 13, 32 and 160.
\<close>

definition isWhiteSpace :: "char \<Rightarrow> bool" where
  "isWhiteSpace c = ((of_char c :: nat) \<in> {9, 10, 11, 12, 13, 32, 160})"

definition trim :: "string \<Rightarrow> string" where
  "trim str = rev (dropWhile isWhiteSpace (rev (dropWhile isWhiteSpace str)))"

subsection \<open>The fixed texts\<close>

definition greetingText :: string where
  "greetingText =
     ''Hi there! I'm MentalHealthChat, your supportive companion. How are you feeling today?''"

definition degradedText :: string where
  "degradedText =
     ''I'm having trouble connecting to my brain right now. Please try again in a moment.''"

definition apologyText :: string where
  "apologyText = ''I'm having trouble responding right now. Please try again in a moment.''"

definition defaultSystemPrompt :: string where
  "defaultSystemPrompt = concat
     [[CHR 0x0A],
      ''You are MentalHealthChat, an AI assistant focused on supporting mental wellbeing. '',
      [CHR 0x0A],
      ''Your responses should be empathetic, supportive, and helpful. '',
      [CHR 0x0A],
      ''Provide guidance on stress management, emotional wellbeing, and mindfulness.'',
      [CHR 0x0A],
      ''Suggest practical exercises when appropriate.'',
      [CHR 0x0A],
      ''If the user seems to be in crisis, gently suggest professional help.'',
      [CHR 0x0A]]"

subsection \<open>The callbacks\<close>

text \<open>
  A callback closes over the state of the render that created it, and the hosting UI
  calls the callbacks of the latest render: what a callback closes over is read from the
  state at the time of the call.
\<close>

text \<open>\<open>addMessage\<close> (lines 62 to 72): the functional update appends to the latest transcript.\<close>

definition addMessage :: "string \<Rightarrow> bool \<Rightarrow> (message, 'e) prog" where
  "addMessage text user =
     andThen dateNow (\<lambda>ms.
     andThen dateNow (\<lambda>date.
     andThen (setMessages (\<lambda>prev. prev @
        [\<lparr>id_of = toString ms, text_of = text, isUser = user, timestamp = date\<rparr>])) (\<lambda>u.
     resolve \<lparr>id_of = toString ms, text_of = text, isUser = user, timestamp = date\<rparr>)))"

text \<open>
  The greeting entry of lines 29 to 34 and 120 to 125, created at clock reading \<open>date\<close>, and
  \<open>clearMessages\<close> (lines 118 to 127).
\<close>

definition greeting :: "nat \<Rightarrow> message" where
  "greeting date = \<lparr>id_of = ''1'', text_of = greetingText, isUser = False, timestamp = date\<rparr>"

definition clearMessages :: "(unit, 'e) prog" where
  "clearMessages =
     andThen dateNow (\<lambda>date.
     setMessages (\<lambda>prev. [greeting date]))"

text \<open>\<open>updateApiFunction\<close> (lines 130 to 136): a value that is not a function is refused.\<close>

definition updateApiFunction :: "'e api_value \<Rightarrow> (unit, 'e) prog" where
  "updateApiFunction newApiFunction =
     (case newApiFunction of
        Fn f \<Rightarrow> setApiFunction newApiFunction
      | NotFn \<Rightarrow> resolve ())"

text \<open>
  The hook suspends at two places only: while a responder call is pending and while a
  backoff timer runs. The hosting UI may call the synchronous callbacks meanwhile; the
  continuation then resumes on the state they left.
\<close>

datatype 'e action = ClearMessages | SetSystemPrompt string | UpdateApiFunction "'e api_value"

fun hostAction :: "'e action \<Rightarrow> 'e chat \<Rightarrow> 'e chat" where
  "hostAction ClearMessages s = snd (clearMessages s)"
| "hostAction (SetSystemPrompt p) s = snd (setSystemPrompt p s)"
| "hostAction (UpdateApiFunction v) s = snd (updateApiFunction v s)"

definition await :: "'e action list \<Rightarrow> ('a, 'e) prog \<Rightarrow> ('a, 'e) prog" where
  "await acts m s = (case m s of (r, s1) \<Rightarrow> (r, fold hostAction acts s1))"

text \<open>
  The host's activity during one call of \<open>sendMessage\<close> is a list with one entry per
  suspension, in order; suspensions beyond the list see no activity.
\<close>

definition during :: "'e action list list \<Rightarrow> nat \<Rightarrow> 'e action list" where
  "during host i = (if i < length host then host ! i else [])"

lemma tryCatch_cong [fundef_cong]:
  "body = body' \<Longrightarrow> (\<And>err s1. handler err s1 = handler' err s1) \<Longrightarrow>
   tryCatch body handler = tryCatch body' handler'"
  by (rule ext) (simp add: tryCatch_def split: prod.splits sum.splits)

lemma andThen_cong [fundef_cong]:
  "m = m' \<Longrightarrow> (\<And>x s1. k x s1 = k' x s1) \<Longrightarrow> andThen m k = andThen m' k'"
  by (rule ext) (simp add: andThen_def split: prod.splits sum.splits)

text \<open>
  \<open>callApiWithRetry\<close> (lines 74 to 97). The callback is memoised on
  \<open>[apiFunction, systemPrompt]\<close>: it closes over the two values of its render, and its
  recursive call is a call of the same closure. Both are therefore parameters here,
  \<open>api\<close> and \<open>prompt\<close>, and the body never reads the state for them.
\<close>

function callApiWithRetry ::
  "'e api_value \<Rightarrow> string \<Rightarrow> 'e action list list \<Rightarrow> string \<Rightarrow> nat \<Rightarrow> nat \<Rightarrow> (string, 'e) prog"
where
  "callApiWithRetry api prompt host userMessage retryCount maxRetries =
     tryCatch
       (case api of
          NotFn \<Rightarrow> resolve degradedText
        | Fn f \<Rightarrow> await (during host 0) (invoke f userMessage prompt))
       (\<lambda>err.
          if retryCount < maxRetries
          then andThen (await (during host 1) (setTimeout (1000 * 2 ^ retryCount))) (\<lambda>u.
               callApiWithRetry api prompt (drop 2 host) userMessage (retryCount + 1) maxRetries)
          else reject err)"
  by pat_completeness auto
termination
  by (relation "measure (\<lambda>(api, prompt, host, userMessage, retryCount, maxRetries).
        maxRetries - retryCount)") auto

declare callApiWithRetry.simps [simp del]

text \<open>
  \<open>sendMessage\<close> (lines 99 to 116), with the activity of the host during the call. The
  call \<open>callApiWithRetry(text)\<close> takes the defaults \<open>retryCount = 0\<close> and \<open>maxRetries = 3\<close>.
\<close>

definition sendMessageDuring ::
  "'e action list list \<Rightarrow> string \<Rightarrow> (message option, 'e) prog"
where
  "sendMessageDuring host text s =
     (if trim text = [] then resolve None s
      else
        andThen (addMessage text True) (\<lambda>userMessage.
        andThen (setIsLoading True) (\<lambda>u.
        andThen
          (tryFinally
             (tryCatch
                (andThen (callApiWithRetry (apiFunction s) (systemPrompt s) host text 0 3)
                   (\<lambda>response.
                 andThen (addMessage response False) (\<lambda>m. resolve ())))
                (\<lambda>err. andThen (addMessage apologyText False) (\<lambda>m. resolve ())))
             (setIsLoading False)) (\<lambda>u.
        resolve (Some userMessage)))) s)"

text \<open>A call of \<open>sendMessage\<close> during which the host calls nothing else.\<close>

definition sendMessage :: "string \<Rightarrow> (message option, 'e) prog" where
  "sendMessage text = sendMessageDuring [] text"

text \<open>
  \<open>useChat\<close> (lines 26 to 60): the initial state, and the two effects that run after the
  first render. \<open>callChatApi\<close> is imported from a module outside this file and is a
  parameter; \<open>now\<close> is the clock at the first render and \<open>e\<close> the hidden state of the
  outside world. \<open>a || b\<close> takes \<open>b\<close> when \<open>a\<close> is absent or falsy: an empty string is falsy, an
  array never is, and \<open>NotFn\<close> in an option stands for a truthy value that is not a function.
\<close>

definition apiFunctionEffect :: "'e api_value \<Rightarrow> 'e ChatOptions \<Rightarrow> (unit, 'e) prog" where
  "apiFunctionEffect callChatApi options =
     (case optApiFunction options of
        Some v \<Rightarrow> setApiFunction v
      | None \<Rightarrow> setApiFunction callChatApi)"

definition systemPromptEffect :: "'e ChatOptions \<Rightarrow> (unit, 'e) prog" where
  "systemPromptEffect options =
     (case optSystemPrompt options of
        Some p \<Rightarrow> if p = [] then resolve () else setSystemPrompt p
      | None \<Rightarrow> resolve ())"

definition useChat :: "'e api_value \<Rightarrow> 'e ChatOptions \<Rightarrow> nat \<Rightarrow> 'e \<Rightarrow> 'e chat" where
  "useChat callChatApi options now e =
     snd (andThen (apiFunctionEffect callChatApi options) (\<lambda>u. systemPromptEffect options)
       \<lparr>messages = (case optInitialMessages options of
                      Some initial \<Rightarrow> initial
                    | None \<Rightarrow> [greeting now]),
        isLoading = False,
        systemPrompt = (case optSystemPrompt options of
                          Some p \<Rightarrow> if p = [] then defaultSystemPrompt else p
                        | None \<Rightarrow> defaultSystemPrompt),
        apiFunction = (case optApiFunction options of
                         Some v \<Rightarrow> v
                       | None \<Rightarrow> callChatApi),
        clock = now, env = e, trace = []\<rparr>)"

subsection \<open>Runs of the public operations\<close>

text \<open>
  What the hosting UI can do to a controller, one step after another: call \<open>sendMessage\<close>
  (with whatever it does while that call is suspended), call one of the synchronous
  callbacks, or let time pass.
\<close>

datatype 'e op = Send "'e action list list" string | Call "'e action" | Wait nat

fun step :: "'e op \<Rightarrow> 'e chat \<Rightarrow> 'e chat" where
  "step (Send host text) s = snd (sendMessageDuring host text s)"
| "step (Call a) s = hostAction a s"
| "step (Wait ms) s = s\<lparr>clock := clock s + ms\<rparr>"

definition run :: "'e op list \<Rightarrow> 'e chat \<Rightarrow> 'e chat" where
  "run ops s = fold step ops s"

text \<open>The responder calls in a log.\<close>

fun isInvoke :: "effect \<Rightarrow> bool" where
  "isInvoke (Invoke userMessage prompt) = True"
| "isInvoke (Timeout ms) = False"

definition invocations :: "effect list \<Rightarrow> nat" where
  "invocations evs = length (filter isInvoke evs)"

text \<open>The prompts passed to the responder in a log, in order.\<close>

fun promptOf :: "effect \<Rightarrow> string list" where
  "promptOf (Invoke userMessage prompt) = [prompt]"
| "promptOf (Timeout ms) = []"

definition prompts :: "effect list \<Rightarrow> string list" where
  "prompts evs = concat (map promptOf evs)"

text \<open>The text of the assistant entry that \<open>sendMessage\<close> appends for an outcome of its retry loop.\<close>

definition replyText :: "error + string \<Rightarrow> string" where
  "replyText r = (case r of Inl err \<Rightarrow> apologyText | Inr response \<Rightarrow> response)"

text \<open>
  The hidden state a responder is in after \<open>k\<close> calls with the same arguments, and the
  outcome of its call number \<open>n\<close> (counted from 1) in such a series.
\<close>

fun envAfter :: "'e responder \<Rightarrow> string \<Rightarrow> string \<Rightarrow> nat \<Rightarrow> 'e \<Rightarrow> 'e" where
  "envAfter f userMessage prompt 0 e = e"
| "envAfter f userMessage prompt (Suc k) e =
     envAfter f userMessage prompt k (snd (snd (f userMessage prompt e)))"

definition outcome :: "'e responder \<Rightarrow> string \<Rightarrow> string \<Rightarrow> 'e \<Rightarrow> nat \<Rightarrow> error + string" where
  "outcome f userMessage prompt e n =
     fst (f userMessage prompt (envAfter f userMessage prompt (n - 1) e))"

text \<open>
  The entry that \<open>addMessage\<close> creates on a state, the state in which \<open>sendMessage\<close> starts
  its retry loop (user entry appended, loading flag set), and that retry loop.
\<close>

definition entry :: "string \<Rightarrow> bool \<Rightarrow> 'e chat \<Rightarrow> message" where
  "entry text user s =
     \<lparr>id_of = toString (clock s), text_of = text, isUser = user, timestamp = clock s\<rparr>"

definition sending :: "string \<Rightarrow> 'e chat \<Rightarrow> 'e chat" where
  "sending text s = snd (andThen (addMessage text True) (\<lambda>userMessage. setIsLoading True) s)"

definition attempt :: "'e action list list \<Rightarrow> string \<Rightarrow> (string, 'e) prog" where
  "attempt host text s =
     callApiWithRetry (apiFunction s) (systemPrompt s) host text 0 3 (sending text s)"

text \<open>
  The state after a responder call that took \<open>ms\<close> milliseconds and left the hidden state
  \<open>e\<close>, and after a timer of \<open>ms\<close> milliseconds, each with the host's activity meanwhile.
\<close>

definition called :: "'e action list \<Rightarrow> string \<Rightarrow> string \<Rightarrow> nat \<Rightarrow> 'e \<Rightarrow> 'e chat \<Rightarrow> 'e chat" where
  "called acts userMessage prompt ms e s =
     fold hostAction acts
       (s\<lparr>clock := clock s + ms, env := e, trace := trace s @ [Invoke userMessage prompt]\<rparr>)"

definition slept :: "'e action list \<Rightarrow> nat \<Rightarrow> 'e chat \<Rightarrow> 'e chat" where
  "slept acts ms s =
     fold hostAction acts (s\<lparr>clock := clock s + ms, trace := trace s @ [Timeout ms]\<rparr>)"

text \<open>Responders and a controller for the concrete runs below.\<close>

definition failing :: "nat responder" where
  "failing userMessage prompt e = (Inl (Error ''503''), 20, Suc e)"

definition flaky :: "nat responder" where
  "flaky userMessage prompt e =
     (if e < 2 then (Inl (Error ''503''), 20, Suc e) else (Inr (prompt @ userMessage), 20, Suc e))"

definition instant :: "nat responder" where
  "instant userMessage prompt e = (Inr ''ok'', 0, Suc e)"

definition noOptions :: "nat ChatOptions" where
  "noOptions = \<lparr>optInitialMessages = None, optSystemPrompt = None, optApiFunction = None\<rparr>"

definition controller :: "nat responder \<Rightarrow> nat chat" where
  "controller f =
     useChat (Fn instant) (noOptions\<lparr>optSystemPrompt := Some ''A'', optApiFunction := Some (Fn f)\<rparr>)
       1700000000000 0"

section \<open>Properties\<close>

subsection \<open>Evaluation of the state passing\<close>

lemmas prog_defs =
  resolve_def reject_def andThen_def tryCatch_def tryFinally_def dateNow_def setMessages_def
  setIsLoading_def setSystemPrompt_def setApiFunction_def setTimeout_def

lemma addMessage_eq:
  "addMessage text user s =
     (Inr (entry text user s), s\<lparr>messages := messages s @ [entry text user s]\<rparr>)"
  by (simp add: addMessage_def entry_def prog_defs)

lemma clearMessages_eq:
  "clearMessages s = (Inr (), s\<lparr>messages := [greeting (clock s)]\<rparr>)"
  by (simp add: clearMessages_def prog_defs)

lemma hostAction_frame:
  "isLoading (hostAction a s) = isLoading s"
  "clock (hostAction a s) = clock s"
  "env (hostAction a s) = env s"
  "trace (hostAction a s) = trace s"
  by (cases a; simp add: clearMessages_eq updateApiFunction_def prog_defs split: api_value.splits)+

lemma hostAction_nonempty: "messages s \<noteq> [] \<Longrightarrow> messages (hostAction a s) \<noteq> []"
  by (cases a) (simp_all add: clearMessages_eq updateApiFunction_def prog_defs split: api_value.splits)

lemma hosts_frame:
  "isLoading (fold hostAction acts s) = isLoading s"
  "clock (fold hostAction acts s) = clock s"
  "env (fold hostAction acts s) = env s"
  "trace (fold hostAction acts s) = trace s"
  by (induction acts arbitrary: s; simp add: hostAction_frame)+

lemma callApi_NotFn:
  "callApiWithRetry NotFn prompt host userMessage retryCount maxRetries s = (Inr degradedText, s)"
  by (subst callApiWithRetry.simps) (simp add: prog_defs)

lemma callApi_resolved:
  "f userMessage prompt (env s) = (Inr reply, ms, e) \<Longrightarrow>
   callApiWithRetry (Fn f) prompt host userMessage retryCount maxRetries s =
     (Inr reply, called (during host 0) userMessage prompt ms e s)"
  by (subst callApiWithRetry.simps) (simp add: prog_defs await_def invoke_def called_def)

lemma callApi_exhausted:
  "f userMessage prompt (env s) = (Inl err, ms, e) \<Longrightarrow> \<not> retryCount < maxRetries \<Longrightarrow>
   callApiWithRetry (Fn f) prompt host userMessage retryCount maxRetries s =
     (Inl err, called (during host 0) userMessage prompt ms e s)"
  by (subst callApiWithRetry.simps) (simp add: prog_defs await_def invoke_def called_def)

lemma callApi_retry:
  "f userMessage prompt (env s) = (Inl err, ms, e) \<Longrightarrow> retryCount < maxRetries \<Longrightarrow>
   callApiWithRetry (Fn f) prompt host userMessage retryCount maxRetries s =
     callApiWithRetry (Fn f) prompt (drop 2 host) userMessage (retryCount + 1) maxRetries
       (slept (during host 1) (1000 * 2 ^ retryCount)
          (called (during host 0) userMessage prompt ms e s))"
  by (subst callApiWithRetry.simps) (simp add: prog_defs await_def invoke_def called_def slept_def)

lemma during_mem: "during host i \<in> insert [] (set host)"
  by (simp add: during_def)

lemma callApi_rel:
  assumes refl: "\<And>s. R s s"
    and call: "\<And>acts ms e s. acts \<in> insert [] (set host) \<Longrightarrow> R s (called acts userMessage prompt ms e s)"
    and sleep: "\<And>acts ms s. acts \<in> insert [] (set host) \<Longrightarrow> R s (slept acts ms s)"
    and trans: "\<And>a b c. R a b \<Longrightarrow> R b c \<Longrightarrow> R a c"
  shows "R s (snd (callApiWithRetry api prompt host userMessage retryCount maxRetries s))"
proof (cases api)
  case NotFn
  then show ?thesis by (simp add: callApi_NotFn refl)
next
  case (Fn f)
  have "set host' \<subseteq> set host \<Longrightarrow>
        R s (snd (callApiWithRetry (Fn f) prompt host' userMessage retryCount maxRetries s))"
    for host'
  proof (induction "maxRetries - retryCount" arbitrary: retryCount s host')
    case 0
    obtain res ms e where f: "f userMessage prompt (env s) = (res, ms, e)"
      by (cases "f userMessage prompt (env s)")
    have mem: "during host' 0 \<in> insert [] (set host)"
      using during_mem [of host' 0] "0.prems" by auto
    show ?case
    proof (cases res)
      case (Inl err)
      with f 0 mem show ?thesis by (simp add: callApi_exhausted call)
    next
      case (Inr reply)
      with f mem show ?thesis by (simp add: callApi_resolved call)
    qed
  next
    case (Suc k)
    obtain res ms e where f: "f userMessage prompt (env s) = (res, ms, e)"
      by (cases "f userMessage prompt (env s)")
    have mem0: "during host' 0 \<in> insert [] (set host)"
      using during_mem [of host' 0] Suc.prems by auto
    have mem1: "during host' 1 \<in> insert [] (set host)"
      using during_mem [of host' 1] Suc.prems by auto
    show ?case
    proof (cases res)
      case (Inl err)
      let ?s1 = "called (during host' 0) userMessage prompt ms e s"
      let ?s2 = "slept (during host' 1) (1000 * 2 ^ retryCount) ?s1"
      have lt: "retryCount < maxRetries" using Suc.hyps(2) by simp
      have k: "k = maxRetries - (retryCount + 1)" using Suc.hyps(2) by simp
      have sub: "set (drop 2 host') \<subseteq> set host"
        using Suc.prems set_drop_subset [of 2 host'] by blast
      have "R s ?s1" using mem0 by (rule call)
      moreover have "R ?s1 ?s2" using mem1 by (rule sleep)
      moreover have "R ?s2 (snd (callApiWithRetry (Fn f) prompt (drop 2 host') userMessage
                                   (retryCount + 1) maxRetries ?s2))"
        using k sub by (rule Suc.hyps(1))
      ultimately show ?thesis
        using f Inl lt by (simp add: callApi_retry) (blast intro: trans)
    next
      case (Inr reply)
      with f mem0 show ?thesis by (simp add: callApi_resolved call)
    qed
  qed
  with Fn show ?thesis by simp
qed

lemma called_frame:
  "isLoading (called acts userMessage prompt ms e s) = isLoading s"
  "trace (called acts userMessage prompt ms e s) = trace s @ [Invoke userMessage prompt]"
  "env (called acts userMessage prompt ms e s) = e"
  "clock (called acts userMessage prompt ms e s) = clock s + ms"
  by (simp_all add: called_def hosts_frame)

lemma slept_frame:
  "isLoading (slept acts ms s) = isLoading s"
  "trace (slept acts ms s) = trace s @ [Timeout ms]"
  "env (slept acts ms s) = env s"
  "clock (slept acts ms s) = clock s + ms"
  by (simp_all add: slept_def hosts_frame)

lemma callApi_alone:
  "messages (snd (callApiWithRetry api prompt [] userMessage retryCount maxRetries s)) = messages s \<and>
   systemPrompt (snd (callApiWithRetry api prompt [] userMessage retryCount maxRetries s)) = systemPrompt s \<and>
   apiFunction (snd (callApiWithRetry api prompt [] userMessage retryCount maxRetries s)) = apiFunction s"
  by (rule callApi_rel [where R = "\<lambda>a b. messages b = messages a \<and> systemPrompt b = systemPrompt a \<and> apiFunction b = apiFunction a"])
     (simp_all add: called_def slept_def)

lemma useChat_messages:
  "messages (useChat callChatApi options now e) =
     (case optInitialMessages options of None \<Rightarrow> [greeting now] | Some initial \<Rightarrow> initial)"
  by (simp add: useChat_def apiFunctionEffect_def systemPromptEffect_def prog_defs
      split: option.splits)

subsection \<open>\<open>sendMessage\<close> and its retry loop\<close>

lemma sending_eq:
  "sending text s = s\<lparr>messages := messages s @ [entry text True s], isLoading := True\<rparr>"
  by (simp add: sending_def addMessage_eq prog_defs)

lemma sending_frame:
  "env (sending text s) = env s"
  "trace (sending text s) = trace s"
  "clock (sending text s) = clock s"
  by (simp_all add: sending_eq)

lemma sendMessageDuring_blank:
  "trim text = [] \<Longrightarrow> sendMessageDuring host text s = (Inr None, s)"
  by (simp add: sendMessageDuring_def prog_defs)

lemma sendMessageDuring_resolved:
  "trim text \<noteq> [] \<Longrightarrow> attempt host text s = (Inr response, s3) \<Longrightarrow>
   sendMessageDuring host text s =
     (Inr (Some (entry text True s)),
      s3\<lparr>messages := messages s3 @ [entry response False s3], isLoading := False\<rparr>)"
  by (simp add: sendMessageDuring_def attempt_def sending_eq addMessage_eq prog_defs)

lemma sendMessageDuring_rejected:
  "trim text \<noteq> [] \<Longrightarrow> attempt host text s = (Inl err, s3) \<Longrightarrow>
   sendMessageDuring host text s =
     (Inr (Some (entry text True s)),
      s3\<lparr>messages := messages s3 @ [entry apologyText False s3], isLoading := False\<rparr>)"
  by (simp add: sendMessageDuring_def attempt_def sending_eq addMessage_eq prog_defs)

lemma sendMessageDuring_eq:
  assumes "trim text \<noteq> []"
  shows "sendMessageDuring host text s =
     (Inr (Some (entry text True s)),
      (snd (attempt host text s))\<lparr>messages := messages (snd (attempt host text s)) @
          [entry (replyText (fst (attempt host text s))) False (snd (attempt host text s))],
        isLoading := False\<rparr>)"
proof (cases "attempt host text s")
  case (Pair r s3)
  with assms show ?thesis
    by (cases r) (simp_all add: sendMessageDuring_resolved sendMessageDuring_rejected replyText_def)
qed

lemma attempt_alone:
  "messages (snd (attempt [] text s)) = messages s @ [entry text True s]"
  "systemPrompt (snd (attempt [] text s)) = systemPrompt s"
  "apiFunction (snd (attempt [] text s)) = apiFunction s"
  using callApi_alone [of "apiFunction s" "systemPrompt s" "text" 0 3 "sending text s"]
  by (simp_all add: attempt_def sending_eq)

lemma upt3: "[0..<3] = [0, 1, 2]"
  by (simp add: upt_rec)

lemma callApi_resolves_at:
  assumes "\<forall>k<j. isl (fst (f userMessage prompt (envAfter f userMessage prompt k (env s))))"
    and "fst (f userMessage prompt (envAfter f userMessage prompt j (env s))) = Inr reply"
    and "retryCount + j \<le> maxRetries"
  shows "fst (callApiWithRetry (Fn f) prompt host userMessage retryCount maxRetries s) = Inr reply \<and>
         invocations (trace (snd (callApiWithRetry (Fn f) prompt host userMessage retryCount
             maxRetries s))) = invocations (trace s) + Suc j"
  using assms
proof (induction j arbitrary: retryCount s host)
  case 0
  then obtain ms e where "f userMessage prompt (env s) = (Inr reply, ms, e)"
    by (cases "f userMessage prompt (env s)") simp
  then show ?case
    by (simp add: callApi_resolved called_frame invocations_def)
next
  case (Suc j)
  from Suc.prems(1) have "isl (fst (f userMessage prompt (env s)))"
    by (metis envAfter.simps(1) zero_less_Suc)
  then obtain err ms e where f: "f userMessage prompt (env s) = (Inl err, ms, e)"
    by (cases "f userMessage prompt (env s)") (auto simp: isl_def)
  let ?s2 = "slept (during host 1) (1000 * 2 ^ retryCount)
               (called (during host 0) userMessage prompt ms e s)"
  have e: "env ?s2 = e" by (simp add: called_frame slept_frame)
  have fails: "\<forall>k<j. isl (fst (f userMessage prompt (envAfter f userMessage prompt k (env ?s2))))"
  proof (intro allI impI)
    fix k assume "k < j"
    then have "Suc k < Suc j" by simp
    with Suc.prems(1)
    have "isl (fst (f userMessage prompt (envAfter f userMessage prompt (Suc k) (env s))))"
      by blast
    then show "isl (fst (f userMessage prompt (envAfter f userMessage prompt k (env ?s2))))"
      using f e by simp
  qed
  have ok: "fst (f userMessage prompt (envAfter f userMessage prompt j (env ?s2))) = Inr reply"
    using Suc.prems(2) f e by simp
  have le: "(retryCount + 1) + j \<le> maxRetries" using Suc.prems(3) by simp
  have lt: "retryCount < maxRetries" using Suc.prems(3) by simp
  have tr: "invocations (trace ?s2) = invocations (trace s) + 1"
    by (simp add: called_frame slept_frame invocations_def)
  show ?case
    using Suc.IH [OF fails ok le, of "drop 2 host"] f lt tr
    by (simp add: callApi_retry)
qed

lemma callApi_rejected_throughout:
  assumes "\<forall>k\<le>maxRetries - retryCount.
             isl (fst (f userMessage prompt (envAfter f userMessage prompt k (env s))))"
  shows "isl (fst (callApiWithRetry (Fn f) prompt host userMessage retryCount maxRetries s)) \<and>
         trace (snd (callApiWithRetry (Fn f) prompt host userMessage retryCount maxRetries s)) =
           trace s @
           concat (map (\<lambda>i. [Invoke userMessage prompt, Timeout (1000 * 2 ^ i)])
                    [retryCount..<maxRetries]) @
           [Invoke userMessage prompt]"
  using assms
proof (induction "maxRetries - retryCount" arbitrary: retryCount s host)
  case 0
  then have "isl (fst (f userMessage prompt (env s)))"
    by (metis envAfter.simps(1) le_refl)
  then obtain err ms e where f: "f userMessage prompt (env s) = (Inl err, ms, e)"
    by (cases "f userMessage prompt (env s)") (auto simp: isl_def)
  with 0 show ?case
    by (simp add: callApi_exhausted called_frame)
next
  case (Suc n)
  from Suc.prems have "isl (fst (f userMessage prompt (env s)))"
    by (metis envAfter.simps(1) le0)
  then obtain err ms e where f: "f userMessage prompt (env s) = (Inl err, ms, e)"
    by (cases "f userMessage prompt (env s)") (auto simp: isl_def)
  let ?s2 = "slept (during host 1) (1000 * 2 ^ retryCount)
               (called (during host 0) userMessage prompt ms e s)"
  have e: "env ?s2 = e" by (simp add: called_frame slept_frame)
  have lt: "retryCount < maxRetries" using Suc.hyps(2) by simp
  have n: "n = maxRetries - (retryCount + 1)" using Suc.hyps(2) by simp
  have fails: "\<forall>k\<le>maxRetries - (retryCount + 1).
                 isl (fst (f userMessage prompt (envAfter f userMessage prompt k (env ?s2))))"
  proof (intro allI impI)
    fix k assume "k \<le> maxRetries - (retryCount + 1)"
    then have "Suc k \<le> maxRetries - retryCount" using lt by simp
    with Suc.prems
    have "isl (fst (f userMessage prompt (envAfter f userMessage prompt (Suc k) (env s))))"
      by blast
    then show "isl (fst (f userMessage prompt (envAfter f userMessage prompt k (env ?s2))))"
      using f e by simp
  qed
  have upt: "[retryCount..<maxRetries] = retryCount # [retryCount + 1..<maxRetries]"
    using lt by (simp add: upt_conv_Cons)
  have tr: "trace ?s2 = trace s @ [Invoke userMessage prompt, Timeout (1000 * 2 ^ retryCount)]"
    by (simp add: called_frame slept_frame)
  show ?case
    using Suc.hyps(1) [OF n fails, of "drop 2 host"] f lt tr
    by (simp add: callApi_retry upt)
qed

lemma callApi_prompts:
  "\<exists>n. prompts (trace (snd (callApiWithRetry api prompt host userMessage retryCount maxRetries s))) =
         prompts (trace s) @ replicate n prompt"
proof (rule callApi_rel [where R = "\<lambda>a b. \<exists>n. prompts (trace b) = prompts (trace a) @ replicate n prompt"],
    goal_cases)
  case (1 s)
  show ?case by simp
next
  case (2 acts ms e s)
  have "prompts (trace (called acts userMessage prompt ms e s)) =
      prompts (trace s) @ replicate 1 prompt"
    by (simp add: called_frame prompts_def)
  then show ?case by blast
next
  case (3 acts ms s)
  have "prompts (trace (slept acts ms s)) = prompts (trace s) @ replicate 0 prompt"
    by (simp add: slept_frame prompts_def)
  then show ?case by blast
next
  case (4 a b c)
  then obtain n m where "prompts (trace b) = prompts (trace a) @ replicate n prompt"
    "prompts (trace c) = prompts (trace b) @ replicate m prompt" by blast
  then have "prompts (trace c) = prompts (trace a) @ replicate (n + m) prompt"
    by (simp add: replicate_add)
  then show ?case by blast
qed

lemma sendMessageDuring_nonempty:
  "messages s \<noteq> [] \<Longrightarrow> messages (snd (sendMessageDuring host text s)) \<noteq> []"
  by (cases "trim text = []") (simp_all add: sendMessageDuring_blank sendMessageDuring_eq)

lemma step_nonempty: "messages s \<noteq> [] \<Longrightarrow> messages (step x s) \<noteq> []"
  by (cases x) (simp_all add: sendMessageDuring_nonempty hostAction_nonempty)

lemma run_nonempty: "messages s \<noteq> [] \<Longrightarrow> messages (run ops s) \<noteq> []"
  unfolding run_def by (induction ops arbitrary: s) (simp_all add: step_nonempty)

lemma controller_fields:
  "apiFunction (controller f) = Fn f"
  "systemPrompt (controller f) = ''A''"
  "messages (controller f) = [greeting 1700000000000]"
  "isLoading (controller f) = False"
  "env (controller f) = 0"
  "trace (controller f) = []"
  "clock (controller f) = 1700000000000"
  by (simp_all add: controller_def useChat_def noOptions_def apiFunctionEffect_def
      systemPromptEffect_def prog_defs)

lemma trim_hello: "trim ''hello'' \<noteq> []"
  by (simp add: trim_def isWhiteSpace_def)

lemma trim_blank: "trim [CHR 0x20, CHR 0x09, CHR 0x0A] = []"
  by (simp add: trim_def isWhiteSpace_def)

lemma failing_attempt: "isl (fst (attempt host ''hello'' (controller failing)))"
proof -
  have "\<forall>k\<le>3 - 0. isl (fst (failing ''hello'' ''A''
          (envAfter failing ''hello'' ''A'' k (env (sending ''hello'' (controller failing))))))"
    by (simp add: failing_def)
  from callApi_rejected_throughout [OF this] show ?thesis
    by (simp add: attempt_def controller_fields)
qed

lemmas run_defs =
  sendMessage_def sendMessageDuring_def callApiWithRetry.simps addMessage_def clearMessages_def
  updateApiFunction_def await_def during_def invoke_def prog_defs trim_def isWhiteSpace_def

section \<open>The claims\<close>

text \<open>
  C1. A call of \<open>sendMessage\<close> on a text that is empty after trimming returns nothing and
  leaves the whole state as it was: no entry is appended and the loading flag is
  unchanged. On any other text the call returns the user entry and leaves the transcript
  extended by exactly two entries, the user entry carrying the text as given and an
  assistant entry, with the loading flag false; this holds on every outcome of the
  responder, reply or fallback.
\<close>

theorem sendMessage_appends:
  "(trim text = [] \<longrightarrow> sendMessage text s = (Inr None, s)) \<and>
   (trim text \<noteq> [] \<longrightarrow>
      (\<exists>user assistant.
         fst (sendMessage text s) = Inr (Some user) \<and>
         messages (snd (sendMessage text s)) = messages s @ [user, assistant] \<and>
         text_of user = text \<and> isUser user \<and> \<not> isUser assistant \<and>
         isLoading (snd (sendMessage text s)) = False))"
proof (intro conjI impI)
  assume "trim text = []"
  then show "sendMessage text s = (Inr None, s)"
    by (simp add: sendMessage_def sendMessageDuring_blank)
next
  assume nonblank: "trim text \<noteq> []"
  let ?user = "entry text True s"
  let ?assistant = "entry (replyText (fst (attempt [] text s))) False (snd (attempt [] text s))"
  have "fst (sendMessage text s) = Inr (Some ?user)"
    using nonblank by (simp add: sendMessage_def sendMessageDuring_eq)
  moreover have "messages (snd (sendMessage text s)) = messages s @ [?user, ?assistant]"
    using nonblank by (simp add: sendMessage_def sendMessageDuring_eq attempt_alone)
  moreover have "text_of ?user = text \<and> isUser ?user \<and> \<not> isUser ?assistant"
    by (simp add: entry_def)
  moreover have "isLoading (snd (sendMessage text s)) = False"
    using nonblank by (simp add: sendMessage_def sendMessageDuring_eq)
  ultimately show "\<exists>user assistant.
         fst (sendMessage text s) = Inr (Some user) \<and>
         messages (snd (sendMessage text s)) = messages s @ [user, assistant] \<and>
         text_of user = text \<and> isUser user \<and> \<not> isUser assistant \<and>
         isLoading (snd (sendMessage text s)) = False"
    by blast
qed

text \<open>C1 on a blank text and on the text \<open>hello\<close>.\<close>

theorem sendMessage_appends_witness:
  "trim [CHR 0x20, CHR 0x09, CHR 0x0A] = [] \<and>
   sendMessage [CHR 0x20, CHR 0x09, CHR 0x0A] (controller instant) = (Inr None, controller instant) \<and>
   trim ''hello'' \<noteq> [] \<and>
   (\<exists>user assistant.
      fst (sendMessage ''hello'' (controller instant)) = Inr (Some user) \<and>
      messages (snd (sendMessage ''hello'' (controller instant))) =
        messages (controller instant) @ [user, assistant] \<and>
      text_of user = ''hello'' \<and> isUser user \<and> \<not> isUser assistant \<and>
      isLoading (snd (sendMessage ''hello'' (controller instant))) = False)"
  using sendMessage_appends [of "[CHR 0x20, CHR 0x09, CHR 0x0A]" "controller instant"]
    sendMessage_appends [of "''hello''" "controller instant"] trim_hello trim_blank
  by simp

text \<open>
  C2. Whatever the responder does and whatever the host does meanwhile, \<open>sendMessage\<close>
  returns a value and never an error; on a text that is not blank it ends with the
  loading flag false, and when its retry loop ends in an error the last entry of the
  transcript is the assistant's fixed apology.
\<close>

theorem sendMessage_absorbs_failures:
  "(\<exists>returned. fst (sendMessageDuring host text s) = Inr returned) \<and>
   (trim text \<noteq> [] \<longrightarrow> isLoading (snd (sendMessageDuring host text s)) = False) \<and>
   (trim text \<noteq> [] \<and> isl (fst (attempt host text s)) \<longrightarrow>
      (\<exists>earlier ident date.
         messages (snd (sendMessageDuring host text s)) =
           earlier @
           [\<lparr>id_of = ident,
             text_of = ''I'm having trouble responding right now. Please try again in a moment.'',
             isUser = False, timestamp = date\<rparr>]))"
proof (cases "trim text = []")
  case True
  then show ?thesis by (simp add: sendMessageDuring_blank)
next
  case False
  show ?thesis
  proof (intro conjI impI)
    show "\<exists>returned. fst (sendMessageDuring host text s) = Inr returned"
      using False by (simp add: sendMessageDuring_eq)
    show "isLoading (snd (sendMessageDuring host text s)) = False"
      using False by (simp add: sendMessageDuring_eq)
  next
    assume "trim text \<noteq> [] \<and> isl (fst (attempt host text s))"
    then have "replyText (fst (attempt host text s)) = apologyText"
      by (auto simp: replyText_def isl_def)
    then have "messages (snd (sendMessageDuring host text s)) =
        messages (snd (attempt host text s)) @
        [\<lparr>id_of = toString (clock (snd (attempt host text s))),
          text_of = ''I'm having trouble responding right now. Please try again in a moment.'',
          isUser = False, timestamp = clock (snd (attempt host text s))\<rparr>]"
      using False by (simp add: sendMessageDuring_eq entry_def apologyText_def)
    then show "\<exists>earlier ident date.
         messages (snd (sendMessageDuring host text s)) =
           earlier @
           [\<lparr>id_of = ident,
             text_of = ''I'm having trouble responding right now. Please try again in a moment.'',
             isUser = False, timestamp = date\<rparr>]"
      by blast
  qed
qed

text \<open>C2 on a responder that rejects every call.\<close>

theorem sendMessage_absorbs_failures_witness:
  "trim ''hello'' \<noteq> [] \<and> isl (fst (attempt [] ''hello'' (controller failing))) \<and>
   (\<exists>returned. fst (sendMessageDuring [] ''hello'' (controller failing)) = Inr returned) \<and>
   isLoading (snd (sendMessageDuring [] ''hello'' (controller failing))) = False \<and>
   (\<exists>earlier ident date.
      messages (snd (sendMessageDuring [] ''hello'' (controller failing))) =
        earlier @
        [\<lparr>id_of = ident,
          text_of = ''I'm having trouble responding right now. Please try again in a moment.'',
          isUser = False, timestamp = date\<rparr>])"
  using sendMessage_absorbs_failures [of "[]" "''hello''" "controller failing"]
    trim_hello failing_attempt [of "[]"]
  by simp

text \<open>
  C3. When the responder rejects each of its four calls in a row, the retry loop of one
  \<open>sendMessage\<close> makes exactly those four calls, with timers of 1000, 2000 and 4000
  milliseconds between them, and ends in an error with only the user entry appended;
  \<open>sendMessage\<close> then appends the apology entry.
\<close>

theorem sendMessage_exhausts_retries:
  assumes api: "apiFunction s = Fn f"
    and nonblank: "trim text \<noteq> []"
    and fails: "\<forall>n\<in>{1..4}. isl (outcome f text (systemPrompt s) (env s) n)"
  shows "\<exists>err s3.
     attempt [] text s = (Inl err, s3) \<and>
     trace s3 = trace s @
       [Invoke text (systemPrompt s), Timeout 1000,
        Invoke text (systemPrompt s), Timeout 2000,
        Invoke text (systemPrompt s), Timeout 4000,
        Invoke text (systemPrompt s)] \<and>
     messages s3 = messages s @ [entry text True s] \<and>
     sendMessage text s =
       (Inr (Some (entry text True s)),
        s3\<lparr>messages := messages s3 @ [entry apologyText False s3], isLoading := False\<rparr>)"
proof -
  have "\<forall>k\<le>3 - 0. isl (fst (f text (systemPrompt s)
          (envAfter f text (systemPrompt s) k (env (sending text s)))))"
  proof (intro allI impI)
    fix k :: nat assume "k \<le> 3 - 0"
    then have "Suc k \<in> {1..4}" by simp
    with fails have "isl (outcome f text (systemPrompt s) (env s) (Suc k))" by blast
    then show "isl (fst (f text (systemPrompt s)
          (envAfter f text (systemPrompt s) k (env (sending text s)))))"
      by (simp add: outcome_def sending_frame)
  qed
  from callApi_rejected_throughout [where host = "[]", OF this]
  have rejected: "isl (fst (attempt [] text s))"
    and tr: "trace (snd (attempt [] text s)) = trace s @
       [Invoke text (systemPrompt s), Timeout 1000,
        Invoke text (systemPrompt s), Timeout 2000,
        Invoke text (systemPrompt s), Timeout 4000,
        Invoke text (systemPrompt s)]"
    by (simp_all add: attempt_def api upt3 sending_frame)
  from rejected obtain err s3 where att: "attempt [] text s = (Inl err, s3)"
    by (cases "attempt [] text s") (auto simp: isl_def)
  have "messages s3 = messages s @ [entry text True s]"
    using attempt_alone(1) [of "text" s] att by simp
  moreover have "sendMessage text s =
       (Inr (Some (entry text True s)),
        s3\<lparr>messages := messages s3 @ [entry apologyText False s3], isLoading := False\<rparr>)"
    using nonblank att by (simp add: sendMessage_def sendMessageDuring_rejected)
  ultimately show ?thesis using att tr by simp
qed

text \<open>C3 on a responder that rejects every call.\<close>

theorem sendMessage_exhausts_retries_witness:
  "apiFunction (controller failing) = Fn failing \<and> trim ''hello'' \<noteq> [] \<and>
   isl (outcome failing ''hello'' ''A'' 0 1) \<and> isl (outcome failing ''hello'' ''A'' 0 4) \<and>
   (\<exists>err s3.
     attempt [] ''hello'' (controller failing) = (Inl err, s3) \<and>
     trace s3 =
       [Invoke ''hello'' ''A'', Timeout 1000, Invoke ''hello'' ''A'', Timeout 2000,
        Invoke ''hello'' ''A'', Timeout 4000, Invoke ''hello'' ''A''] \<and>
     messages s3 = messages (controller failing) @ [entry ''hello'' True (controller failing)] \<and>
     sendMessage ''hello'' (controller failing) =
       (Inr (Some (entry ''hello'' True (controller failing))),
        s3\<lparr>messages := messages s3 @ [entry apologyText False s3], isLoading := False\<rparr>))"
proof -
  have fails: "\<forall>n\<in>{1..4}. isl (outcome failing ''hello'' (systemPrompt (controller failing))
      (env (controller failing)) n)"
    by (simp add: outcome_def failing_def)
  show ?thesis
    using sendMessage_exhausts_retries [OF controller_fields(1) trim_hello fails] trim_hello
    by (simp add: controller_fields outcome_def failing_def)
qed

text \<open>
  C4. When the first reply of the responder comes on its call number \<open>N\<close>, with \<open>N\<close> from 1
  to 4, one \<open>sendMessage\<close> calls the responder exactly \<open>N\<close> times and the assistant entry
  it appends carries that reply.
\<close>

theorem sendMessage_first_success:
  assumes api: "apiFunction s = Fn f"
    and nonblank: "trim text \<noteq> []"
    and range: "1 \<le> N" "N \<le> 4"
    and fails: "\<forall>n. 1 \<le> n \<and> n < N \<longrightarrow> isl (outcome f text (systemPrompt s) (env s) n)"
    and succeeds: "outcome f text (systemPrompt s) (env s) N = Inr reply"
  shows "invocations (trace (snd (sendMessage text s))) = invocations (trace s) + N \<and>
     (\<exists>assistant.
        messages (snd (sendMessage text s)) = messages s @ [entry text True s, assistant] \<and>
        text_of assistant = reply \<and> \<not> isUser assistant)"
proof -
  have before: "\<forall>k<N - 1. isl (fst (f text (systemPrompt s)
          (envAfter f text (systemPrompt s) k (env (sending text s)))))"
  proof (intro allI impI)
    fix k :: nat assume "k < N - 1"
    then have "1 \<le> Suc k \<and> Suc k < N" by simp
    with fails have "isl (outcome f text (systemPrompt s) (env s) (Suc k))" by blast
    then show "isl (fst (f text (systemPrompt s)
          (envAfter f text (systemPrompt s) k (env (sending text s)))))"
      by (simp add: outcome_def sending_frame)
  qed
  have at: "fst (f text (systemPrompt s)
          (envAfter f text (systemPrompt s) (N - 1) (env (sending text s)))) = Inr reply"
    using succeeds by (simp add: outcome_def sending_frame)
  have le: "0 + (N - 1) \<le> 3" using range by simp
  from callApi_resolves_at [where host = "[]", OF before at le]
  have res: "fst (attempt [] text s) = Inr reply"
    and inv: "invocations (trace (snd (attempt [] text s))) = invocations (trace s) + N"
    using range by (simp_all add: attempt_def api sending_frame)
  from res obtain s3 where att: "attempt [] text s = (Inr reply, s3)"
    by (cases "attempt [] text s") simp
  have send: "sendMessage text s =
       (Inr (Some (entry text True s)),
        s3\<lparr>messages := messages s3 @ [entry reply False s3], isLoading := False\<rparr>)"
    using nonblank att by (simp add: sendMessage_def sendMessageDuring_resolved)
  have msgs: "messages s3 = messages s @ [entry text True s]"
    using attempt_alone(1) [of "text" s] att by simp
  have "invocations (trace (snd (sendMessage text s))) = invocations (trace s) + N"
    using send inv att by simp
  moreover have "messages (snd (sendMessage text s)) =
      messages s @ [entry text True s, entry reply False s3]"
    using send msgs by simp
  moreover have "text_of (entry reply False s3) = reply \<and> \<not> isUser (entry reply False s3)"
    by (simp add: entry_def)
  ultimately show ?thesis by blast
qed

text \<open>C4 on a responder that rejects twice and then replies: \<open>N = 3\<close>.\<close>

theorem sendMessage_first_success_witness:
  "apiFunction (controller flaky) = Fn flaky \<and> trim ''hello'' \<noteq> [] \<and>
   isl (outcome flaky ''hello'' ''A'' 0 1) \<and> isl (outcome flaky ''hello'' ''A'' 0 2) \<and>
   outcome flaky ''hello'' ''A'' 0 3 = Inr ''Ahello'' \<and>
   invocations (trace (snd (sendMessage ''hello'' (controller flaky)))) = 3 \<and>
   (\<exists>assistant.
      messages (snd (sendMessage ''hello'' (controller flaky))) =
        messages (controller flaky) @ [entry ''hello'' True (controller flaky), assistant] \<and>
      text_of assistant = ''Ahello'' \<and> \<not> isUser assistant)"
proof -
  have o1: "isl (outcome flaky ''hello'' ''A'' 0 1)"
    by (simp add: outcome_def flaky_def)
  have o2: "isl (outcome flaky ''hello'' ''A'' 0 2)"
    by (simp add: outcome_def flaky_def numeral_2_eq_2)
  have o3: "outcome flaky ''hello'' ''A'' 0 3 = Inr ''Ahello''"
    by (simp add: outcome_def flaky_def numeral_3_eq_3)
  have fails: "\<forall>n. 1 \<le> n \<and> n < 3 \<longrightarrow>
      isl (outcome flaky ''hello'' (systemPrompt (controller flaky)) (env (controller flaky)) n)"
  proof (intro allI impI)
    fix n :: nat assume "1 \<le> n \<and> n < 3"
    then have "n = 1 \<or> n = 2" by arith
    then show "isl (outcome flaky ''hello'' (systemPrompt (controller flaky))
        (env (controller flaky)) n)"
      using o1 o2 by (auto simp: controller_fields)
  qed
  have succeeds: "outcome flaky ''hello'' (systemPrompt (controller flaky))
      (env (controller flaky)) 3 = Inr ''Ahello''"
    using o3 by (simp add: controller_fields)
  show ?thesis
    using sendMessage_first_success [OF controller_fields(1) trim_hello _ _ fails succeeds]
      trim_hello o1 o2 o3
    by (simp add: controller_fields invocations_def)
qed

text \<open>
  C5, as the code has it. The retry loop passes on every attempt the system prompt that
  was in the state when \<open>sendMessage\<close> was called, whatever the host sets while the loop
  is suspended: the prompts of the calls that one \<open>sendMessage\<close> adds to the log are
  copies of that one prompt.
\<close>

theorem sendMessage_prompt_frozen:
  "\<exists>n. prompts (trace (snd (sendMessageDuring host text s))) =
         prompts (trace s) @ replicate n (systemPrompt s)"
proof (cases "trim text = []")
  case True
  then have "prompts (trace (snd (sendMessageDuring host text s))) =
      prompts (trace s) @ replicate 0 (systemPrompt s)"
    by (simp add: sendMessageDuring_blank)
  then show ?thesis by blast
next
  case False
  obtain n where "prompts (trace (snd (attempt host text s))) =
      prompts (trace (sending text s)) @ replicate n (systemPrompt s)"
    unfolding attempt_def using callApi_prompts by blast
  then have "prompts (trace (snd (sendMessageDuring host text s))) =
      prompts (trace s) @ replicate n (systemPrompt s)"
    using False by (simp add: sendMessageDuring_eq sending_frame)
  then show ?thesis by blast
qed

text \<open>The frozen prompt on the run below: three calls, each with the prompt \<open>A\<close>.\<close>

theorem sendMessage_prompt_frozen_witness:
  "prompts (trace (snd (sendMessageDuring [[], [SetSystemPrompt ''B'']] ''hi'' (controller flaky)))) =
     replicate 3 (systemPrompt (controller flaky)) \<and>
   systemPrompt (controller flaky) = ''A''"
proof -
  obtain n where n: "prompts (trace (snd (sendMessageDuring [[], [SetSystemPrompt ''B'']] ''hi''
      (controller flaky)))) = prompts (trace (controller flaky)) @ replicate n (systemPrompt (controller flaky))"
    using sendMessage_prompt_frozen by blast
  have "length (prompts (trace (snd (sendMessageDuring [[], [SetSystemPrompt ''B'']] ''hi''
      (controller flaky))))) = 3"
    by (simp add: run_defs controller_fields flaky_def prompts_def)
  with n have "n = 3" by (simp add: controller_fields prompts_def)
  with n show ?thesis by (simp add: controller_fields prompts_def)
qed

text \<open>
  C5 as stated fails. The controller holds the prompt \<open>A\<close> and a responder that rejects
  twice; the host sets the prompt \<open>B\<close> during the first backoff timer. The second and
  third call still receive \<open>A\<close>, while the state holds \<open>B\<close> from then on.
\<close>

theorem sendMessage_keeps_captured_prompt:
  "trace (snd (sendMessageDuring [[], [SetSystemPrompt ''B'']] ''hi'' (controller flaky))) =
     [Invoke ''hi'' ''A'', Timeout 1000, Invoke ''hi'' ''A'', Timeout 2000, Invoke ''hi'' ''A''] \<and>
   systemPrompt (snd (sendMessageDuring [[], [SetSystemPrompt ''B'']] ''hi'' (controller flaky))) =
     ''B'' \<and>
   Invoke ''hi'' ''B'' \<notin>
     set (trace (snd (sendMessageDuring [[], [SetSystemPrompt ''B'']] ''hi'' (controller flaky)))) \<and>
   map text_of (messages (snd (sendMessageDuring [[], [SetSystemPrompt ''B'']] ''hi''
       (controller flaky)))) = [greetingText, ''hi'', ''Ahi'']"
  by (simp add: run_defs controller_fields flaky_def greeting_def)

text \<open>
  C6, as the code has it. A controller constructed without \<open>initialMessages\<close>, or with a
  list that is not empty, has an entry in its transcript after every run of the public
  operations.
\<close>

theorem transcript_nonempty:
  "optInitialMessages options \<noteq> Some [] \<Longrightarrow>
   messages (run ops (useChat callChatApi options now e)) \<noteq> []"
proof (rule run_nonempty)
  assume "optInitialMessages options \<noteq> Some []"
  then show "messages (useChat callChatApi options now e) \<noteq> []"
    by (auto simp: useChat_messages split: option.splits)
qed

text \<open>C6 on a controller constructed without options.\<close>

theorem transcript_nonempty_witness:
  "optInitialMessages noOptions \<noteq> Some [] \<and>
   messages (run [Send [] ''hi'', Call ClearMessages, Call (SetSystemPrompt ''B''),
                  Call (UpdateApiFunction NotFn), Wait 5]
              (useChat (Fn instant) noOptions 1700000000000 0)) \<noteq> []"
proof -
  have "optInitialMessages noOptions \<noteq> Some []" by (simp add: noOptions_def)
  with transcript_nonempty [of noOptions] show ?thesis by blast
qed

text \<open>
  C6 as stated fails: constructed with an empty \<open>initialMessages\<close>, the controller starts
  with an empty transcript, and operations that append nothing leave it empty.
\<close>

theorem transcript_empty_from_empty_seed:
  "messages (run [] (useChat (Fn instant) (noOptions\<lparr>optInitialMessages := Some []\<rparr>)
      1700000000000 0)) = [] \<and>
   messages (run [Call (SetSystemPrompt ''B''), Send [] [CHR 0x20], Wait 5]
     (useChat (Fn instant) (noOptions\<lparr>optInitialMessages := Some []\<rparr>) 1700000000000 0)) = []"
  by (simp add: run_def useChat_def noOptions_def apiFunctionEffect_def systemPromptEffect_def
      run_defs)

text \<open>
  C7. The identifier of an entry is the clock reading at its creation, so two entries
  created within one millisecond share it: with a responder that settles at once, the
  user entry and the assistant entry of one \<open>sendMessage\<close> have the same identifier.
\<close>

theorem sendMessage_same_millisecond:
  "map id_of (messages (snd (sendMessage ''hi'' (controller instant)))) =
     [''1'', ''1700000000000'', ''1700000000000''] \<and>
   \<not> distinct (map id_of (messages (snd (sendMessage ''hi'' (controller instant)))))"
  by (simp add: run_defs controller_fields instant_def greeting_def toString.simps digit_def)

text \<open>
  C8. Whatever the transcript was, \<open>clearMessages()\<close> leaves a transcript of exactly one
  entry, the assistant's greeting with the fixed text and the clock's current reading as
  its timestamp, and changes nothing else of the state: not the loading flag, not the
  system prompt, not the responder.
\<close>

theorem clearMessages_resets:
  "clearMessages s =
     (Inr (), s\<lparr>messages :=
        [\<lparr>id_of = ''1'',
          text_of = ''Hi there! I'm MentalHealthChat, your supportive companion. How are you feeling today?'',
          isUser = False, timestamp = clock s\<rparr>]\<rparr>)"
  by (simp add: clearMessages_eq greeting_def greetingText_def)

text \<open>
  C9. When the responder in the state is not a function, the retry loop returns the fixed
  degraded-service text at once, as a value and on any retry count, without touching the
  state: no call, no timer. \<open>sendMessage\<close> on a text that is not blank then appends the
  user entry and an assistant entry with that text, and clears the loading flag.
\<close>

theorem sendMessage_not_a_function:
  assumes "apiFunction s = NotFn" and "trim text \<noteq> []"
  shows "callApiWithRetry (apiFunction s) prompt host userMessage retryCount maxRetries s' =
           (Inr ''I'm having trouble connecting to my brain right now. Please try again in a moment.'', s') \<and>
         sendMessageDuring host text s =
           (Inr (Some (entry text True s)),
            s\<lparr>messages := messages s @
                 [entry text True s,
                  entry ''I'm having trouble connecting to my brain right now. Please try again in a moment.''
                    False s],
               isLoading := False\<rparr>)"
proof -
  have "attempt host text s = (Inr degradedText, sending text s)"
    using assms(1) by (simp add: attempt_def callApi_NotFn)
  with assms(2) have "sendMessageDuring host text s =
      (Inr (Some (entry text True s)),
       (sending text s)\<lparr>messages := messages (sending text s) @
          [entry degradedText False (sending text s)], isLoading := False\<rparr>)"
    by (rule sendMessageDuring_resolved)
  then show ?thesis
    using assms(1) by (simp add: callApi_NotFn sending_eq entry_def degradedText_def)
qed

text \<open>C9 on a controller whose default responder is not a function.\<close>

theorem sendMessage_not_a_function_witness:
  "apiFunction (useChat NotFn noOptions 1700000000000 0) = NotFn \<and> trim ''hello'' \<noteq> [] \<and>
   map text_of (messages (snd (sendMessageDuring [] ''hello'' (useChat NotFn noOptions 1700000000000 0)))) =
     [greetingText, ''hello'',
      ''I'm having trouble connecting to my brain right now. Please try again in a moment.''] \<and>
   trace (snd (sendMessageDuring [] ''hello'' (useChat NotFn noOptions 1700000000000 (0::nat)))) = []"
proof -
  have api: "apiFunction (useChat NotFn noOptions 1700000000000 0) = NotFn"
    by (simp add: useChat_def noOptions_def apiFunctionEffect_def systemPromptEffect_def prog_defs)
  show ?thesis
    using sendMessage_not_a_function [where host = "[]", OF api trim_hello] api trim_hello
    by (simp add: entry_def useChat_def noOptions_def apiFunctionEffect_def
        systemPromptEffect_def prog_defs greeting_def)
qed

text \<open>
  C10. The greeting is seeded only when \<open>initialMessages\<close> is absent: a supplied list is
  the initial transcript as it is, and a supplied empty list gives an empty transcript.
\<close>

theorem useChat_initialMessages:
  "messages (useChat callChatApi
       \<lparr>optInitialMessages = None, optSystemPrompt = prompt, optApiFunction = api\<rparr> now e) =
     [greeting now] \<and>
   messages (useChat callChatApi
       \<lparr>optInitialMessages = Some initial, optSystemPrompt = prompt, optApiFunction = api\<rparr> now e) =
     initial \<and>
   messages (useChat callChatApi
       \<lparr>optInitialMessages = Some [], optSystemPrompt = prompt, optApiFunction = api\<rparr> now e) =
     []"
  by (simp add: useChat_messages)

end
